theory Spec2Isabelle
  imports Main
begin

section \<open>Go strings\<close>

text \<open>
  A Go string is a sequence of bytes, as \<^typ>\<open>string\<close> is. The two functions of package
  \<open>strings\<close> that \<open>parseAcceptHeader\<close> calls are modelled on bytes.
\<close>

text \<open>\<open>strings.Split(s, sep)\<close> for a separator of one byte: the pieces between the
  separators, in order; one piece more than there are separators, so the empty string
  gives one empty piece.\<close>

fun strings_Split :: "string \<Rightarrow> char \<Rightarrow> string list" where
  "strings_Split [] sep = [[]]"
| "strings_Split (c # cs) sep =
     (if c = sep then [] # strings_Split cs sep
      else (case strings_Split cs sep of
              [] \<Rightarrow> [[c]]
            | piece # pieces \<Rightarrow> (c # piece) # pieces))"

text \<open>The UTF-8 encodings of the code points for which \<open>unicode.IsSpace\<close> holds:
  the six ASCII ones (tab, line feed, vertical tab, form feed, carriage return, space),
  U+0085, U+00A0, U+1680, U+2000 to U+200A, U+2028, U+2029, U+202F, U+205F, U+3000.\<close>

definition spaceEncodings :: "nat list list" where
  "spaceEncodings =
     [[0x09], [0x0A], [0x0B], [0x0C], [0x0D], [0x20],
      [0xC2, 0x85], [0xC2, 0xA0],
      [0xE1, 0x9A, 0x80],
      [0xE2, 0x80, 0x80], [0xE2, 0x80, 0x81], [0xE2, 0x80, 0x82], [0xE2, 0x80, 0x83],
      [0xE2, 0x80, 0x84], [0xE2, 0x80, 0x85], [0xE2, 0x80, 0x86], [0xE2, 0x80, 0x87],
      [0xE2, 0x80, 0x88], [0xE2, 0x80, 0x89], [0xE2, 0x80, 0x8A],
      [0xE2, 0x80, 0xA8], [0xE2, 0x80, 0xA9], [0xE2, 0x80, 0xAF],
      [0xE2, 0x81, 0x9F],
      [0xE3, 0x80, 0x80]]"

text \<open>The width in bytes of the white-space rune that the string starts with (what decoding
  the first rune and testing it with \<open>unicode.IsSpace\<close> finds), 0 when it starts with
  no such rune.\<close>

definition spaceWidth :: "string \<Rightarrow> nat" where
  "spaceWidth s =
     (case find (\<lambda>p. map of_char (take (length p) s) = p) spaceEncodings of
        None \<Rightarrow> 0
      | Some p \<Rightarrow> length p)"

text \<open>The same for the last rune of the string, given reversed (what
  \<open>utf8.DecodeLastRuneInString\<close> finds).\<close>

definition spaceWidthLast :: "string \<Rightarrow> nat" where
  "spaceWidthLast rs =
     (case find (\<lambda>p. map of_char (take (length p) rs) = rev p) spaceEncodings of
        None \<Rightarrow> 0
      | Some p \<Rightarrow> length p)"

text \<open>\<open>strings.TrimLeftFunc(s, unicode.IsSpace)\<close>: drop white-space runes from the front.\<close>

function trimLeftSpace :: "string \<Rightarrow> string" where
  "trimLeftSpace s =
     (if spaceWidth s = 0 then s else trimLeftSpace (drop (spaceWidth s) s))"
  by pat_completeness auto
termination
proof (relation "measure length")
  show "wf (measure length)" by simp
next
  fix s :: string
  assume "spaceWidth s \<noteq> 0"
  moreover have "spaceWidth s \<le> length s"
  proof (cases "find (\<lambda>p. map of_char (take (length p) s) = p) spaceEncodings")
    case None
    then show ?thesis by (simp add: spaceWidth_def)
  next
    case (Some p)
    then have "map of_char (take (length p) s) = p" by (auto simp: find_Some_iff)
    then have "length (take (length p) s) = length p" by (metis length_map)
    then have "length p \<le> length s" by simp
    with Some show ?thesis by (simp add: spaceWidth_def)
  qed
  ultimately show "(drop (spaceWidth s) s, s) \<in> measure length" by simp
qed

declare trimLeftSpace.simps [simp del]

text \<open>\<open>strings.TrimRightFunc(s, unicode.IsSpace)\<close> on the reversed string.\<close>

function trimRightSpace :: "string \<Rightarrow> string" where
  "trimRightSpace rs =
     (if spaceWidthLast rs = 0 then rs else trimRightSpace (drop (spaceWidthLast rs) rs))"
  by pat_completeness auto
termination
proof (relation "measure length")
  show "wf (measure length)" by simp
next
  fix rs :: string
  assume "spaceWidthLast rs \<noteq> 0"
  moreover have "spaceWidthLast rs \<le> length rs"
  proof (cases "find (\<lambda>p. map of_char (take (length p) rs) = rev p) spaceEncodings")
    case None
    then show ?thesis by (simp add: spaceWidthLast_def)
  next
    case (Some p)
    then have "map of_char (take (length p) rs) = rev p" by (auto simp: find_Some_iff)
    then have "length (take (length p) rs) = length p" by (metis length_map length_rev)
    then have "length p \<le> length rs" by simp
    with Some show ?thesis by (simp add: spaceWidthLast_def)
  qed
  ultimately show "(drop (spaceWidthLast rs) rs, rs) \<in> measure length" by simp
qed

declare trimRightSpace.simps [simp del]

text \<open>\<open>strings.TrimSpace(s)\<close>: \<open>s\<close> without its leading and trailing white space. Go trims
  the front first and then the back of what is left.\<close>

definition strings_TrimSpace :: "string \<Rightarrow> string" where
  "strings_TrimSpace s =
     rev (trimRightSpace (rev (trimLeftSpace s)))"

text \<open>The ASCII white space, as the table \<open>asciiSpace\<close> of package \<open>strings\<close> has it, and
  an ASCII byte that is not white space.\<close>

definition asciiSpace :: "char \<Rightarrow> bool" where
  "asciiSpace c = (of_char c \<in> {0x09, 0x0A, 0x0B, 0x0C, 0x0D, 0x20 :: nat})"

definition asciiNonSpace :: "char \<Rightarrow> bool" where
  "asciiNonSpace c = ((of_char c :: nat) < 0x80 \<and> \<not> asciiSpace c)"

text \<open>\<open>strings.Join(pieces, sep)\<close> for a separator of one byte: a header value written as
  the list of its pieces.\<close>

fun strings_Join :: "string list \<Rightarrow> char \<Rightarrow> string" where
  "strings_Join [] sep = []"
| "strings_Join [piece] sep = piece"
| "strings_Join (piece # next # pieces) sep = piece @ sep # strings_Join (next # pieces) sep"

section \<open>Codecs\<close>

text \<open>
  Modelled from the spec: package \<open>codec\<close>, which declares the interfaces \<open>Marshaler\<close>,
  \<open>FormMarshaler\<close>, \<open>UriMarshaler\<close> and \<open>FormCodec\<close>, and the packages \<open>form\<close> and
  \<open>json\<close> with the default codecs are not among the sources. A codec is the dynamic value
  behind an interface: what it is, and which of the optional interfaces its method set
  satisfies. Every codec satisfies the base interface \<open>Marshaler\<close>.
\<close>

datatype capability = FormMarshaler | UriMarshaler | FormCodec

datatype codec = Codec (codecName: string) (codecCapabilities: "capability list")

text \<open>The type assertion \<open>marshaler.(codec.X)\<close> on a non-nil value. The URI capability has
  all of the form capability (decode from and encode to a field multi-map) and the path
  template encoding on top, so a \<open>UriMarshaler\<close> is a \<open>FormMarshaler\<close> too.\<close>

fun implements :: "codec \<Rightarrow> capability \<Rightarrow> bool" where
  "implements c FormMarshaler =
     (FormMarshaler \<in> set (codecCapabilities c) \<or> UriMarshaler \<in> set (codecCapabilities c))"
| "implements c UriMarshaler = (UriMarshaler \<in> set (codecCapabilities c))"
| "implements c FormCodec = (FormCodec \<in> set (codecCapabilities c))"

text \<open>A value of interface type \<open>codec.Marshaler\<close>: \<open>None\<close> is the nil interface.\<close>

type_synonym Marshaler = "codec option"

text \<open>Modelled from the spec: the default codecs that \<open>New\<close> builds, of the packages
  \<open>form\<close> and \<open>json\<close>. \<open>form.New\<close> gives a \<open>*form.Codec\<close>, which the tests register
  for the query token and for the URI token; the query and URI codecs have the capability that the type of
  their slot asks for; the multipart codec is the one \<open>Bind\<close> decodes multipart forms
  with; the JSON codec is a base codec.\<close>

definition form_New :: "string \<Rightarrow> codec" where
  "form_New tagName =
     Codec (''*form.Codec{'' @ tagName @ ''}'') [FormMarshaler, UriMarshaler]"

definition form_MultipartCodec :: "codec \<Rightarrow> codec" where
  "form_MultipartCodec c = Codec (''*form.MultipartCodec{'' @ codecName c @ ''}'') [FormCodec]"

definition form_QueryCodec :: "codec \<Rightarrow> codec" where
  "form_QueryCodec c = Codec (''*form.QueryCodec{'' @ codecName c @ ''}'') [FormMarshaler]"

definition form_UriCodec :: "codec \<Rightarrow> codec" where
  "form_UriCodec c =
     Codec (''*form.UriCodec{'' @ codecName c @ ''}'') [FormMarshaler, UriMarshaler]"

definition json_Codec :: "bool \<Rightarrow> bool \<Rightarrow> codec" where
  "json_Codec useNumber disallowUnknownFields =
     Codec (''*json.Codec{UseNumber: '' @ (if useNumber then ''true'' else ''false'')
            @ '', DisallowUnknownFields: ''
            @ (if disallowUnknownFields then ''true'' else ''false'') @ ''}'') []"

section \<open>The registry\<close>

datatype error = Error string

definition defaultMemory :: int where
  "defaultMemory = push_bit 20 32"

definition Mime_Query :: string where
  "Mime_Query = ''__MIME__/QUERY''"

definition Mime_Uri :: string where
  "Mime_Uri = ''__MIME__/URI''"

definition Mime_Wildcard :: string where
  "Mime_Wildcard = ''*''"

definition Mime_JSON :: string where
  "Mime_JSON = ''application/json''"

definition Mime_PostForm :: string where
  "Mime_PostForm = ''application/x-www-form-urlencoded''"

definition Mime_MultipartPostForm :: string where
  "Mime_MultipartPostForm = ''multipart/form-data''"

definition acceptHeader :: string where
  "acceptHeader = ''Accept''"

definition contentTypeHeader :: string where
  "contentTypeHeader = ''Content-Type''"

text \<open>\<open>Encoding\<close>: the general mapping and the three reserved slots. A Go map from strings
  to interface values can hold a nil value under a key, so the entries are
  \<^typ>\<open>Marshaler\<close>s; a key that is absent maps to \<open>None\<close>. A registry is built by
  \<open>New\<close>, which allocates the map; the zero value of the struct, whose map is nil, is
  not modelled.\<close>

record Encoding =
  mimeMap :: "string \<rightharpoonup> Marshaler"
  mimeQuery :: Marshaler
  mimeUri :: Marshaler
  mimeWildcard :: Marshaler

definition New :: Encoding where
  "New = \<lparr>
     mimeMap = [Mime_PostForm \<mapsto> Some (form_New ''json''),
                Mime_MultipartPostForm \<mapsto> Some (form_MultipartCodec (form_New ''json'')),
                Mime_JSON \<mapsto> Some (json_Codec True False)],
     mimeQuery = Some (form_QueryCodec (form_New ''json'')),
     mimeUri = Some (form_UriCodec (form_New ''json'')),
     mimeWildcard = Some (json_Codec True True) \<rparr>"

text \<open>\<open>Register\<close> returns its error and the registry as the call leaves it.\<close>

definition Register :: "Encoding \<Rightarrow> string \<Rightarrow> Marshaler \<Rightarrow> error option \<times> Encoding" where
  "Register r mime marshaler =
     (if length mime = 0 then (Some (Error ''encoding: empty MIME type''), r)
      else case marshaler of
        None \<Rightarrow> (Some (Error ''encoding: marshaller should be not nil''), r)
      | Some m \<Rightarrow>
          if mime = Mime_Query then
            (if \<not> implements m FormMarshaler then
               (Some (Error ''encoding: marshaller should be implement codec.FormMarshaler''), r)
             else (None, r\<lparr>mimeQuery := Some m\<rparr>))
          else if mime = Mime_Uri then
            (if \<not> implements m UriMarshaler then
               (Some (Error ''encoding: marshaller should be implement codec.UriMarshaler''), r)
             else (None, r\<lparr>mimeUri := Some m\<rparr>))
          else if mime = Mime_Wildcard then (None, r\<lparr>mimeWildcard := Some m\<rparr>)
          else (None, r\<lparr>mimeMap := (mimeMap r)(mime \<mapsto> Some m)\<rparr>))"

text \<open>\<open>Get\<close>: an absent key reads as the nil interface, like a key that holds nil.\<close>

definition Get :: "Encoding \<Rightarrow> string \<Rightarrow> Marshaler" where
  "Get r mime =
     (if mime = Mime_Query then mimeQuery r
      else if mime = Mime_Uri then mimeUri r
      else if mime = Mime_Wildcard then mimeWildcard r
      else (let m = (case mimeMap r mime of None \<Rightarrow> None | Some entry \<Rightarrow> entry)
            in if m = None then mimeWildcard r else m))"

definition Delete :: "Encoding \<Rightarrow> string \<Rightarrow> error option \<times> Encoding" where
  "Delete r mime =
     (if mime = Mime_Wildcard \<or> mime = Mime_Query \<or> mime = Mime_Uri then
        (Some (Error (''encoding: MIME('' @ mime @ '') can't delete, but you can override it'')), r)
      else (None, r\<lparr>mimeMap := (mimeMap r)(mime := None)\<rparr>))"

text \<open>A sequence of mutating calls on the registry that \<open>New\<close> returns.\<close>

datatype call = RegisterCall string Marshaler | DeleteCall string

fun applyCall :: "Encoding \<Rightarrow> call \<Rightarrow> Encoding" where
  "applyCall r (RegisterCall mime marshaler) = snd (Register r mime marshaler)"
| "applyCall r (DeleteCall mime) = snd (Delete r mime)"

definition afterCalls :: "call list \<Rightarrow> Encoding" where
  "afterCalls calls = foldl applyCall New calls"

section \<open>Negotiation\<close>

text \<open>\<open>parseAcceptHeader\<close>: split on commas, then trim each piece in place.\<close>

definition parseAcceptHeader :: "string \<Rightarrow> string list" where
  "parseAcceptHeader header = map strings_TrimSpace (strings_Split header CHR '','')"

text \<open>The inner loop of \<open>marshalerFromHeaderAccept\<close> over the candidates of one header
  value: the first candidate that is a key of the map sets \<open>marshaler\<close> to its entry and
  leaves this loop.\<close>

fun acceptCandidates :: "(string \<rightharpoonup> Marshaler) \<Rightarrow> string list \<Rightarrow> Marshaler \<Rightarrow> Marshaler" where
  "acceptCandidates mm [] marshaler = marshaler"
| "acceptCandidates mm (v # vs) marshaler =
     (case mm v of
        Some m \<Rightarrow> m
      | None \<Rightarrow> acceptCandidates mm vs marshaler)"

text \<open>The outer loop over the header values: it has no exit of its own, so every value is
  visited, each starting from the \<open>marshaler\<close> the values before it left.\<close>

fun acceptValues :: "(string \<rightharpoonup> Marshaler) \<Rightarrow> string list \<Rightarrow> Marshaler \<Rightarrow> Marshaler" where
  "acceptValues mm [] marshaler = marshaler"
| "acceptValues mm (acceptVal # vals) marshaler =
     acceptValues mm vals (acceptCandidates mm (parseAcceptHeader acceptVal) marshaler)"

definition marshalerFromHeaderAccept :: "Encoding \<Rightarrow> string list \<Rightarrow> Marshaler" where
  "marshalerFromHeaderAccept r vals =
     (let marshaler = acceptValues (mimeMap r) vals None
      in if marshaler = None then mimeWildcard r else marshaler)"

text \<open>\<open>mime.ParseMediaType\<close> is the Go library's; the registry is modelled for any such
  function. It gives the media type (lower-cased, without the parameters) and the error;
  the parameters it also returns are dropped by the caller.\<close>

type_synonym mediaTypeParser = "string \<Rightarrow> string \<times> error option"

text \<open>The loop of \<open>marshalerFromHeaderContentType\<close>, on the variables \<open>contentType\<close> and
  \<open>marshaler\<close>: a value that does not parse is passed over, the first parsed type that is
  a key of the map sets \<open>marshaler\<close> and ends the loop.\<close>

fun contentTypeValues ::
  "mediaTypeParser \<Rightarrow> (string \<rightharpoonup> Marshaler) \<Rightarrow> string list \<Rightarrow> string \<times> Marshaler
     \<Rightarrow> string \<times> Marshaler" where
  "contentTypeValues parse mm [] (contentType, marshaler) = (contentType, marshaler)"
| "contentTypeValues parse mm (contentTypeVal # vals) (contentType, marshaler) =
     (case parse contentTypeVal of
        (contentType', Some err) \<Rightarrow> contentTypeValues parse mm vals (contentType', marshaler)
      | (contentType', None) \<Rightarrow>
          (case mm contentType' of
             Some m \<Rightarrow> (contentType', m)
           | None \<Rightarrow> contentTypeValues parse mm vals (contentType', marshaler)))"

definition marshalerFromHeaderContentType ::
  "mediaTypeParser \<Rightarrow> Encoding \<Rightarrow> string list \<Rightarrow> string \<times> Marshaler" where
  "marshalerFromHeaderContentType parse r vals =
     (case contentTypeValues parse (mimeMap r) vals ([], None) of
        (contentType, marshaler) \<Rightarrow>
          if marshaler = None then (Mime_Wildcard, mimeWildcard r)
          else (contentType, marshaler))"

section \<open>Binding and rendering\<close>

text \<open>\<open>url.Values\<close> and the \<open>Value\<close> field of a \<open>multipart.Form\<close> are both
  \<open>map[string][]string\<close>.\<close>

type_synonym Values = "string \<rightharpoonup> string list"

text \<open>What the registry reads of a \<open>*http.Request\<close>: the method, the header, the query
  parameters of the URL (what \<open>req.URL.Query()\<close> returns) and the body.\<close>

record Request =
  Method :: string
  Header :: "string \<rightharpoonup> string list"
  URL_Query :: Values
  Body :: string

text \<open>Indexing a \<open>http.Header\<close> with a key it does not have gives the nil slice, over which
  a loop does not run.\<close>

definition headerValues :: "Request \<Rightarrow> string \<Rightarrow> string list" where
  "headerValues req key = (case Header req key of None \<Rightarrow> [] | Some vals \<Rightarrow> vals)"

text \<open>
  The code that the registry calls and that is not its own: the Go library
  (\<open>mime.ParseMediaType\<close>, \<open>req.ParseMultipartForm\<close>, which gives its error or, on
  success, leaves the fields in \<open>req.MultipartForm.Value\<close>) and the methods of the codecs,
  reached through the interfaces. For a destination \<open>v\<close>, a decoding method gives its
  error and what it leaves in the destination. The registry is modelled for any of them.
\<close>

record 'v collaborators =
  ParseMediaType :: mediaTypeParser
  ParseMultipartForm :: "Request \<Rightarrow> int \<Rightarrow> error + Values"
  ContentType :: "codec \<Rightarrow> 'v \<Rightarrow> string"
  Marshal :: "codec \<Rightarrow> 'v \<Rightarrow> error + string"
  NewDecoder_Decode :: "codec \<Rightarrow> string \<Rightarrow> 'v \<Rightarrow> error option \<times> 'v"
  FormMarshaler_Decode :: "codec \<Rightarrow> Values \<Rightarrow> 'v \<Rightarrow> error option \<times> 'v"
  FormCodec_Decode :: "codec \<Rightarrow> Values \<Rightarrow> 'v \<Rightarrow> error option \<times> 'v"

text \<open>A call either panics (a method called on a nil interface) or returns.\<close>

datatype 'a outcome = Panic | Return 'a

definition InboundForRequest ::
  "'v collaborators \<Rightarrow> Encoding \<Rightarrow> Request \<Rightarrow> string \<times> Marshaler" where
  "InboundForRequest env r req =
     marshalerFromHeaderContentType (ParseMediaType env) r (headerValues req contentTypeHeader)"

definition OutboundForRequest :: "Encoding \<Rightarrow> Request \<Rightarrow> Marshaler" where
  "OutboundForRequest r req = marshalerFromHeaderAccept r (headerValues req acceptHeader)"

definition BindQuery ::
  "'v collaborators \<Rightarrow> Encoding \<Rightarrow> Request \<Rightarrow> 'v \<Rightarrow> (error option \<times> 'v) outcome" where
  "BindQuery env r req v =
     (case mimeQuery r of
        None \<Rightarrow> Panic
      | Some q \<Rightarrow> Return (FormMarshaler_Decode env q (URL_Query req) v))"

text \<open>\<open>Bind\<close>. The type assertion with \<open>ok\<close> fails on the nil interface as it does on a
  codec without the method.\<close>

definition Bind ::
  "'v collaborators \<Rightarrow> Encoding \<Rightarrow> Request \<Rightarrow> 'v \<Rightarrow> (error option \<times> 'v) outcome" where
  "Bind env r req v =
     (if Method req = ''GET'' then BindQuery env r req v
      else case InboundForRequest env r req of
        (contentType, marshaller) \<Rightarrow>
          if contentType = Mime_MultipartPostForm then
            (case (case marshaller of
                     None \<Rightarrow> None
                   | Some c \<Rightarrow> if implements c FormCodec then Some c else None) of
               None \<Rightarrow>
                 Return (Some (Error (''encoding: not supported marshaller('' @ contentType @ '')'')), v)
             | Some m \<Rightarrow>
                 (case ParseMultipartForm env req defaultMemory of
                    Inl err \<Rightarrow> Return (Some err, v)
                  | Inr formValue \<Rightarrow> Return (FormCodec_Decode env m formValue v)))
          else
            (case marshaller of
               None \<Rightarrow> Panic
             | Some c \<Rightarrow> Return (NewDecoder_Decode env c (Body req) v)))"

text \<open>What \<open>Render\<close> does to the \<open>http.ResponseWriter\<close>, in order: the calls it makes.\<close>

datatype writerCall = Header_Set string string | Write string

text \<open>\<open>Render\<close>, for a writer whose \<open>Write\<close> returns the error \<open>write data\<close>: the error
  returned and the calls made on the writer. The value \<open>v\<close> is an \<open>any\<close>: \<open>None\<close> is
  nil.\<close>

definition Render ::
  "'v collaborators \<Rightarrow> (string \<Rightarrow> error option) \<Rightarrow> Encoding \<Rightarrow> Request \<Rightarrow> 'v option
     \<Rightarrow> (error option \<times> writerCall list) outcome" where
  "Render env write r req v =
     (case v of
        None \<Rightarrow> Return (None, [])
      | Some x \<Rightarrow>
          (case OutboundForRequest r req of
             None \<Rightarrow> Panic
           | Some marshaller \<Rightarrow>
               (case Marshal env marshaller x of
                  Inl err \<Rightarrow> Return (Some err, [])
                | Inr data \<Rightarrow>
                    Return (write data,
                            [Header_Set ''Content-Type'' (ContentType env marshaller x),
                             Write data]))))"

section \<open>Statements of the specification, in its words\<close>

text \<open>Accept resolution as the specification words it: the candidates of all header values
  in order, the entry of the first one that is a key of the general mapping, the wildcard
  codec when there is none.\<close>

definition acceptFirstMatch :: "Encoding \<Rightarrow> string list \<Rightarrow> Marshaler" where
  "acceptFirstMatch r vals =
     (case List.map_filter (mimeMap r) (concat (map parseAcceptHeader vals)) of
        [] \<Rightarrow> mimeWildcard r
      | m # _ \<Rightarrow> m)"

text \<open>Content-Type resolution as the specification words it: the values that parse, in
  order, as bare media types; the first that is a key of the general mapping, with its
  entry; the wildcard token and codec when there is none.\<close>

definition registeredMediaTypes ::
  "mediaTypeParser \<Rightarrow> (string \<rightharpoonup> Marshaler) \<Rightarrow> string list \<Rightarrow> (string \<times> Marshaler) list" where
  "registeredMediaTypes parse mm vals =
     concat (map (\<lambda>val. case parse val of
                          (mediaType, Some err) \<Rightarrow> []
                        | (mediaType, None) \<Rightarrow>
                            (case mm mediaType of None \<Rightarrow> [] | Some m \<Rightarrow> [(mediaType, m)]))
                 vals)"

definition contentTypeFirstMatch ::
  "mediaTypeParser \<Rightarrow> Encoding \<Rightarrow> string list \<Rightarrow> string \<times> Marshaler" where
  "contentTypeFirstMatch parse r vals =
     (case registeredMediaTypes parse (mimeMap r) vals of
        [] \<Rightarrow> (Mime_Wildcard, mimeWildcard r)
      | found # _ \<Rightarrow> found)"

text \<open>No key of the general mapping holds the nil interface: \<open>New\<close> and \<open>Register\<close> only
  ever store codecs.\<close>

definition noNilEntries :: "Encoding \<Rightarrow> bool" where
  "noNilEntries r = (\<forall>mime. mimeMap r mime \<noteq> Some None)"

text \<open>The registry holds no nil interface at all, in the mapping or in a slot.\<close>

definition hasNoNil :: "Encoding \<Rightarrow> bool" where
  "hasNoNil r =
     (noNilEntries r \<and> mimeWildcard r \<noteq> None \<and> mimeQuery r \<noteq> None \<and> mimeUri r \<noteq> None)"

section \<open>Stand-ins for running the model\<close>

text \<open>\<open>msgpack.Codec\<close> has the five methods of the base interface and no other.\<close>

definition msgpack_Codec :: codec where
  "msgpack_Codec = Codec ''*msgpack.Codec{}'' []"

text \<open>The destination type of the tests, \<open>TestMode\<close>, with its fields \<open>Id\<close> and
  \<open>Name\<close>.\<close>

type_synonym TestMode = "string \<times> string"

definition firstValue :: "Values \<Rightarrow> string \<Rightarrow> string" where
  "firstValue vals key = (case vals key of Some (x # _) \<Rightarrow> x | _ \<Rightarrow> [])"

definition isJson :: "codec \<Rightarrow> bool" where
  "isJson c = (take 11 (codecName c) = ''*json.Codec'')"

text \<open>Stand-ins for the collaborators, in the manner of the tests' \<open>dummyMarshaler\<close>, for
  running the model on a concrete request: the media type is what comes before the
  first semicolon; a form decodes from the first values of the fields \<open>id\<close> and
  \<open>name\<close>; the multipart fields are the ones the request was built with; a JSON codec
  marshals the two fields and declares a JSON content type; marshalling with any other
  codec and stream decoding are not implemented. On the header values used below, the
  media type it gives is the one \<open>mime.ParseMediaType\<close> gives.\<close>

definition testCollaborators :: "Values \<Rightarrow> TestMode collaborators" where
  \<open>testCollaborators multipartValue = \<lparr>
     ParseMediaType = (\<lambda>val. (takeWhile (\<lambda>c. c \<noteq> CHR '';'') val, None)),
     ParseMultipartForm = (\<lambda>req maxMemory. Inr multipartValue),
     ContentType = (\<lambda>c v. if isJson c then ''application/json; charset=utf-8'' else []),
     Marshal = (\<lambda>c v. if isJson c
                        then Inr (''{"id":"'' @ fst v @ ''","name":"'' @ snd v @ ''"}'')
                        else Inl (Error ''not implemented'')),
     NewDecoder_Decode = (\<lambda>c body v. (Some (Error ''not implemented''), v)),
     FormMarshaler_Decode =
       (\<lambda>c vals v. (None, (firstValue vals ''id'', firstValue vals ''name''))),
     FormCodec_Decode =
       (\<lambda>c vals v. (None, (firstValue vals ''id'', firstValue vals ''name''))) \<rparr>\<close>

text \<open>A request with one header, and the query string \<open>id=foo&name=bar\<close>.\<close>

definition testRequest :: "string \<Rightarrow> string \<Rightarrow> string \<Rightarrow> Request" where
  "testRequest method headerKey headerValue = \<lparr>
     Method = method,
     Header = [headerKey \<mapsto> [headerValue]],
     URL_Query = [''id'' \<mapsto> [''foo''], ''name'' \<mapsto> [''bar'']],
     Body = [] \<rparr>"

section \<open>Lemmas on the loops\<close>

lemmas trim_simps =
  strings_TrimSpace_def trimLeftSpace.simps trimRightSpace.simps spaceWidth_def
  spaceWidthLast_def spaceEncodings_def

lemmas mime_defs =
  Mime_Query_def Mime_Uri_def Mime_Wildcard_def Mime_JSON_def Mime_PostForm_def
  Mime_MultipartPostForm_def

lemma strings_Split_no_sep: "sep \<notin> set s \<Longrightarrow> strings_Split s sep = [s]"
  by (induction s) auto

lemma strings_Split_append:
  "sep \<notin> set piece \<Longrightarrow>
   strings_Split (piece @ sep # rest) sep = piece # strings_Split rest sep"
  by (induction piece) auto

lemma strings_Split_Join:
  "pieces \<noteq> [] \<Longrightarrow> \<forall>piece \<in> set pieces. sep \<notin> set piece
     \<Longrightarrow> strings_Split (strings_Join pieces sep) sep = pieces"
  by (induction pieces sep rule: strings_Join.induct)
    (auto simp: strings_Split_no_sep strings_Split_append)

lemma asciiSpace_cases:
  assumes "asciiSpace c"
  obtains "of_char c = (0x09::nat)" | "of_char c = (0x0A::nat)" | "of_char c = (0x0B::nat)"
    | "of_char c = (0x0C::nat)" | "of_char c = (0x0D::nat)" | "of_char c = (0x20::nat)"
  using assms by (auto simp: asciiSpace_def)

lemma spaceWidth_asciiSpace:
  assumes "asciiSpace c"
  shows "spaceWidth (c # s) = 1"
  using assms
  by (cases rule: asciiSpace_cases) (simp_all add: spaceWidth_def spaceEncodings_def)

lemma spaceWidthLast_asciiSpace:
  assumes "asciiSpace c"
  shows "spaceWidthLast (c # s) = 1"
  using assms
  by (cases rule: asciiSpace_cases) (simp_all add: spaceWidthLast_def spaceEncodings_def)

lemma spaceWidth_asciiNonSpace:
  assumes "asciiNonSpace c"
  shows "spaceWidth (c # s) = 0"
proof -
  from assms have lt: "(of_char c :: nat) < 128"
    and ne: "of_char c \<noteq> (9::nat)" "of_char c \<noteq> (10::nat)" "of_char c \<noteq> (11::nat)"
      "of_char c \<noteq> (12::nat)" "of_char c \<noteq> (13::nat)" "of_char c \<noteq> (32::nat)"
    by (auto simp: asciiNonSpace_def asciiSpace_def)
  from lt have hi: "of_char c \<noteq> (194::nat)" "of_char c \<noteq> (225::nat)"
    "of_char c \<noteq> (226::nat)" "of_char c \<noteq> (227::nat)"
    by simp_all
  have "find (\<lambda>p. map of_char (take (length p) (c # s)) = p) spaceEncodings = None"
    using ne hi by (simp add: spaceEncodings_def)
  then show ?thesis by (simp add: spaceWidth_def)
qed

lemma spaceWidthLast_asciiNonSpace:
  assumes "asciiNonSpace c"
  shows "spaceWidthLast (c # s) = 0"
proof -
  from assms have lt: "(of_char c :: nat) < 128"
    and ne: "of_char c \<noteq> (9::nat)" "of_char c \<noteq> (10::nat)" "of_char c \<noteq> (11::nat)"
      "of_char c \<noteq> (12::nat)" "of_char c \<noteq> (13::nat)" "of_char c \<noteq> (32::nat)"
    by (auto simp: asciiNonSpace_def asciiSpace_def)
  from lt have hi: "of_char c \<noteq> (128::nat)" "of_char c \<noteq> (129::nat)"
    "of_char c \<noteq> (130::nat)" "of_char c \<noteq> (131::nat)" "of_char c \<noteq> (132::nat)"
    "of_char c \<noteq> (133::nat)" "of_char c \<noteq> (134::nat)" "of_char c \<noteq> (135::nat)"
    "of_char c \<noteq> (136::nat)" "of_char c \<noteq> (137::nat)" "of_char c \<noteq> (138::nat)"
    "of_char c \<noteq> (159::nat)" "of_char c \<noteq> (160::nat)" "of_char c \<noteq> (168::nat)"
    "of_char c \<noteq> (169::nat)" "of_char c \<noteq> (175::nat)"
    by simp_all
  have "find (\<lambda>p. map of_char (take (length p) (c # s)) = rev p) spaceEncodings = None"
    using ne hi by (simp add: spaceEncodings_def)
  then show ?thesis by (simp add: spaceWidthLast_def)
qed


lemma trimLeftSpace_pad:
  "\<forall>c \<in> set pad. asciiSpace c \<Longrightarrow> asciiNonSpace a
     \<Longrightarrow> trimLeftSpace (pad @ a # s) = a # s"
proof (induction pad)
  case Nil
  then show ?case by (simp add: trimLeftSpace.simps [of "a # s"] spaceWidth_asciiNonSpace)
next
  case (Cons c pad)
  then have "spaceWidth (c # pad @ a # s) = 1" by (simp add: spaceWidth_asciiSpace)
  then have "trimLeftSpace (c # pad @ a # s) = trimLeftSpace (pad @ a # s)"
    by (simp add: trimLeftSpace.simps [of "c # pad @ a # s"])
  with Cons show ?case by simp
qed

lemma trimRightSpace_pad:
  "\<forall>c \<in> set pad. asciiSpace c \<Longrightarrow> asciiNonSpace a
     \<Longrightarrow> trimRightSpace (pad @ a # s) = a # s"
proof (induction pad)
  case Nil
  then show ?case by (simp add: trimRightSpace.simps [of "a # s"] spaceWidthLast_asciiNonSpace)
next
  case (Cons c pad)
  then have "spaceWidthLast (c # pad @ a # s) = 1" by (simp add: spaceWidthLast_asciiSpace)
  then have "trimRightSpace (c # pad @ a # s) = trimRightSpace (pad @ a # s)"
    by (simp add: trimRightSpace.simps [of "c # pad @ a # s"])
  with Cons show ?case by simp
qed

lemma strings_TrimSpace_pad:
  assumes "\<forall>c \<in> set before. asciiSpace c" and "\<forall>c \<in> set after. asciiSpace c"
    and "cand \<noteq> []" and "asciiNonSpace (hd cand)" and "asciiNonSpace (last cand)"
  shows "strings_TrimSpace (before @ cand @ after) = cand"
proof -
  from assms(3) obtain a s where c: "cand = a # s" by (cases cand) auto
  with assms(4) have a: "asciiNonSpace a" by simp
  from assms(3) have r: "rev cand = last cand # rev (butlast cand)"
    by (metis append_butlast_last_id rev.simps(2) rev_append rev_singleton_conv append_Cons append_Nil)
  have "trimLeftSpace (before @ cand @ after) = cand @ after"
    using trimLeftSpace_pad [OF assms(1) a, of "s @ after"] c by simp
  moreover have "trimRightSpace (rev (cand @ after)) = rev cand"
  proof -
    from trimRightSpace_pad [of "rev after" "last cand" "rev (butlast cand)"] assms(2) assms(5)
    have "trimRightSpace (rev after @ last cand # rev (butlast cand))
            = last cand # rev (butlast cand)"
      by simp
    then have "trimRightSpace (rev after @ rev cand) = rev cand" by (simp only: r)
    then show ?thesis by simp
  qed
  ultimately show ?thesis by (simp add: strings_TrimSpace_def)
qed


lemma acceptCandidates_none:
  "\<forall>cand \<in> set cands. mm cand = None \<Longrightarrow> acceptCandidates mm cands marshaler = marshaler"
  by (induction cands) auto

lemma acceptValues_none:
  "\<forall>cand \<in> set (concat (map parseAcceptHeader vals)). mm cand = None
     \<Longrightarrow> acceptValues mm vals marshaler = marshaler"
  by (induction vals arbitrary: marshaler) (auto simp: acceptCandidates_none)

lemma acceptCandidates_hit:
  "\<exists>cand \<in> set cands. mm cand \<noteq> None
     \<Longrightarrow> \<exists>cand \<in> set cands. mm cand = Some (acceptCandidates mm cands marshaler)"
  by (induction cands) (auto split: option.splits)


lemma acceptValues_hit:
  "\<exists>cand \<in> set (concat (map parseAcceptHeader vals)). mm cand \<noteq> None
     \<Longrightarrow> \<exists>cand \<in> set (concat (map parseAcceptHeader vals)).
           mm cand = Some (acceptValues mm vals marshaler)"
proof (induction vals arbitrary: marshaler)
  case Nil
  then show ?case by simp
next
  case (Cons acceptVal vals)
  let ?m = "acceptCandidates mm (parseAcceptHeader acceptVal) marshaler"
  have step: "acceptValues mm (acceptVal # vals) marshaler = acceptValues mm vals ?m" by simp
  show ?case
  proof (cases "\<exists>cand \<in> set (concat (map parseAcceptHeader vals)). mm cand \<noteq> None")
    case True
    from Cons.IH [OF True, of ?m] obtain cand
      where "cand \<in> set (concat (map parseAcceptHeader vals))"
        and "mm cand = Some (acceptValues mm vals ?m)"
      by blast
    then have "cand \<in> set (concat (map parseAcceptHeader (acceptVal # vals)))"
      and "mm cand = Some (acceptValues mm (acceptVal # vals) marshaler)"
      by (simp_all only: step) simp
    then show ?thesis by blast
  next
    case False
    then have "\<forall>cand \<in> set (concat (map parseAcceptHeader vals)). mm cand = None" by blast
    then have rest: "acceptValues mm vals ?m = ?m" by (rule acceptValues_none)
    from False Cons.prems have "\<exists>cand \<in> set (parseAcceptHeader acceptVal). mm cand \<noteq> None"
      by fastforce
    from acceptCandidates_hit [OF this, of marshaler] obtain cand
      where "cand \<in> set (parseAcceptHeader acceptVal)" and "mm cand = Some ?m"
      by blast
    then have "cand \<in> set (concat (map parseAcceptHeader (acceptVal # vals)))"
      and "mm cand = Some (acceptValues mm (acceptVal # vals) marshaler)"
      by (simp_all add: rest)
    then show ?thesis by blast
  qed
qed

lemma acceptCandidates_first:
  "acceptCandidates mm cands marshaler =
     (case List.map_filter mm cands of [] \<Rightarrow> marshaler | m # _ \<Rightarrow> m)"
  by (induction cands) (auto split: option.splits)

text \<open>With one header value the code does return the first candidate that is registered.\<close>

lemma marshalerFromHeaderAccept_one_value:
  assumes "noNilEntries r"
  shows "marshalerFromHeaderAccept r [acceptVal] = acceptFirstMatch r [acceptVal]"
proof (cases "List.map_filter (mimeMap r) (parseAcceptHeader acceptVal)")
  case Nil
  then show ?thesis
    by (simp add: marshalerFromHeaderAccept_def acceptFirstMatch_def acceptCandidates_first)
next
  case (Cons m rest)
  then have "m \<in> set (List.map_filter (mimeMap r) (parseAcceptHeader acceptVal))" by simp
  then obtain cand where "mimeMap r cand = Some m"
    by (auto simp: List.map_filter_def)
  with assms have "m \<noteq> None" unfolding noNilEntries_def by metis
  with Cons show ?thesis
    by (auto simp: marshalerFromHeaderAccept_def acceptFirstMatch_def acceptCandidates_first)
qed

lemma registeredMediaTypes_Nil: "registeredMediaTypes parse mm [] = []"
  by (simp add: registeredMediaTypes_def)

lemma registeredMediaTypes_Cons:
  "registeredMediaTypes parse mm (val # vals) =
     (case parse val of
        (mediaType, Some err) \<Rightarrow> []
      | (mediaType, None) \<Rightarrow>
          (case mm mediaType of None \<Rightarrow> [] | Some m \<Rightarrow> [(mediaType, m)]))
     @ registeredMediaTypes parse mm vals"
  by (simp add: registeredMediaTypes_def)

lemma contentTypeValues_no_match:
  "registeredMediaTypes parse mm vals = []
     \<Longrightarrow> snd (contentTypeValues parse mm vals (contentType, marshaler)) = marshaler"
proof (induction vals arbitrary: contentType)
  case Nil
  show ?case by simp
next
  case (Cons val vals)
  obtain mediaType err where p: "parse val = (mediaType, err)" by (cases "parse val")
  from Cons.prems p have rest: "registeredMediaTypes parse mm vals = []"
    by (simp add: registeredMediaTypes_Cons)
  from Cons.prems p have "err = None \<Longrightarrow> mm mediaType = None"
    by (auto simp: registeredMediaTypes_Cons split: option.splits)
  with p Cons.IH [OF rest, of mediaType] show ?case
    by (cases err) auto
qed

lemma contentTypeValues_first_match:
  "registeredMediaTypes parse mm vals = found # rest
     \<Longrightarrow> contentTypeValues parse mm vals (contentType, marshaler) = found"
proof (induction vals arbitrary: contentType)
  case Nil
  then show ?case by (simp add: registeredMediaTypes_Nil)
next
  case (Cons val vals)
  obtain mediaType err where p: "parse val = (mediaType, err)" by (cases "parse val")
  show ?case
  proof (cases "err = None \<and> mm mediaType \<noteq> None")
    case True
    with p Cons.prems show ?thesis
      by (auto simp: registeredMediaTypes_Cons)
  next
    case False
    with p Cons.prems have "registeredMediaTypes parse mm vals = found # rest"
      by (auto simp: registeredMediaTypes_Cons split: option.splits)
    from Cons.IH [OF this, of mediaType] p False show ?thesis
      by (cases err) auto
  qed
qed

lemma registeredMediaTypes_entries:
  "(mediaType, m) \<in> set (registeredMediaTypes parse mm vals) \<Longrightarrow> mm mediaType = Some m"
  by (auto simp: registeredMediaTypes_def split: prod.splits option.splits)

section \<open>The registry never holds nil\<close>

lemma hasNoNil_New: "hasNoNil New"
  by (simp add: hasNoNil_def noNilEntries_def New_def)

lemma hasNoNil_Register: "hasNoNil r \<Longrightarrow> hasNoNil (snd (Register r mime marshaler))"
  by (auto simp: hasNoNil_def noNilEntries_def Register_def split: option.splits)

lemma hasNoNil_Delete: "hasNoNil r \<Longrightarrow> hasNoNil (snd (Delete r mime))"
  by (auto simp: hasNoNil_def noNilEntries_def Delete_def)

lemma hasNoNil_applyCall: "hasNoNil r \<Longrightarrow> hasNoNil (applyCall r c)"
  by (cases c) (simp_all add: hasNoNil_Register hasNoNil_Delete)

lemma hasNoNil_foldl: "hasNoNil r \<Longrightarrow> hasNoNil (foldl applyCall r calls)"
  by (induction calls arbitrary: r) (simp_all add: hasNoNil_applyCall)

lemma hasNoNil_afterCalls: "hasNoNil (afterCalls calls)"
  by (simp add: afterCalls_def hasNoNil_foldl hasNoNil_New)

lemma Get_not_nil: "hasNoNil r \<Longrightarrow> Get r mime \<noteq> None"
  by (auto simp: hasNoNil_def Get_def Let_def split: option.splits)

lemma Get_cases:
  "hasNoNil r \<Longrightarrow>
   Get r mime =
     (if mime = Mime_Query then mimeQuery r
      else if mime = Mime_Uri then mimeUri r
      else if mime = Mime_Wildcard then mimeWildcard r
      else case mimeMap r mime of Some entry \<Rightarrow> entry | None \<Rightarrow> mimeWildcard r)"
  by (auto simp: hasNoNil_def noNilEntries_def Get_def Let_def split: option.splits)

text \<open>So the two resolutions give a codec on such a registry, and neither \<open>Bind\<close> nor
  \<open>Render\<close> calls a method on the nil interface.\<close>

lemma marshalerFromHeaderAccept_not_nil:
  assumes "hasNoNil r"
  shows "marshalerFromHeaderAccept r vals \<noteq> None"
proof (cases "acceptValues (mimeMap r) vals None")
  case None
  with assms show ?thesis by (simp add: marshalerFromHeaderAccept_def hasNoNil_def)
next
  case (Some c)
  then show ?thesis by (simp add: marshalerFromHeaderAccept_def)
qed

lemma marshalerFromHeaderContentType_not_nil:
  assumes "hasNoNil r"
  shows "snd (marshalerFromHeaderContentType parse r vals) \<noteq> None"
  using assms
  by (cases "contentTypeValues parse (mimeMap r) vals ([], None)")
    (auto simp: marshalerFromHeaderContentType_def hasNoNil_def)

section \<open>The claims\<close>

text \<open>
  Claim C1: for every registry and every list of raw Accept header values, outbound
  resolution splits each raw value on commas, trims each candidate, and returns the codec
  of the first candidate across all header values that is a key of the general mapping,
  the wildcard codec when there is none.

  The code does not return the first match when more than one header value has one: the
  \<open>break\<close> leaves the loop over the candidates of one value only, the loop over the values
  goes on, and a later value with a match overwrites the codec. On the registry of \<open>New\<close>
  and the two header values \<open>application/json\<close> and \<open>application/x-www-form-urlencoded\<close>
  the code returns the form codec, where the first match is the JSON codec.
\<close>

theorem marshalerFromHeaderAccept_later_value_overwrites:
  "marshalerFromHeaderAccept New [''application/json'', ''application/x-www-form-urlencoded'']
     = Some (form_New ''json'')
   \<and> acceptFirstMatch New [''application/json'', ''application/x-www-form-urlencoded'']
     = Some (json_Codec True False)
   \<and> form_New ''json'' \<noteq> json_Codec True False"
  by (simp add: marshalerFromHeaderAccept_def acceptFirstMatch_def New_def
      parseAcceptHeader_def mime_defs trim_simps form_New_def json_Codec_def)

text \<open>
  Claim C2: for every non-empty token and every non-nil codec, \<open>Register\<close> and then \<open>Get\<close>
  of the token returns exactly that codec; except when the token is the query or the URI
  token and the codec lacks the capability the slot needs (\<open>FormMarshaler\<close>,
  \<open>UriMarshaler\<close>): then \<open>Register\<close> returns an error and \<open>Get\<close> of the token returns
  what it returned before the call.
\<close>

theorem Register_then_Get:
  assumes "mime \<noteq> []"
  shows "if mime = Mime_Query \<and> \<not> implements c FormMarshaler
            \<or> mime = Mime_Uri \<and> \<not> implements c UriMarshaler
         then fst (Register r mime (Some c)) \<noteq> None
              \<and> Get (snd (Register r mime (Some c))) mime = Get r mime
         else fst (Register r mime (Some c)) = None
              \<and> Get (snd (Register r mime (Some c))) mime = Some c"
  using assms
  by (auto simp: Register_def Get_def Mime_Query_def Mime_Uri_def Mime_Wildcard_def)

theorem Register_then_Get_witness:
  "fst (Register New ''application/x-msgpack'' (Some msgpack_Codec)) = None
   \<and> Get (snd (Register New ''application/x-msgpack'' (Some msgpack_Codec)))
        ''application/x-msgpack'' = Some msgpack_Codec
   \<and> fst (Register New ''*'' (Some msgpack_Codec)) = None
   \<and> Get (snd (Register New ''*'' (Some msgpack_Codec))) ''*'' = Some msgpack_Codec
   \<and> fst (Register New ''__MIME__/QUERY'' (Some (form_New ''json''))) = None
   \<and> Get (snd (Register New ''__MIME__/QUERY'' (Some (form_New ''json''))))
        ''__MIME__/QUERY'' = Some (form_New ''json'')
   \<and> fst (Register New ''__MIME__/QUERY'' (Some msgpack_Codec)) \<noteq> None
   \<and> Get (snd (Register New ''__MIME__/QUERY'' (Some msgpack_Codec))) ''__MIME__/QUERY''
        = Some (form_QueryCodec (form_New ''json''))
   \<and> fst (Register New ''__MIME__/URI'' (Some msgpack_Codec)) \<noteq> None
   \<and> Get (snd (Register New ''__MIME__/URI'' (Some msgpack_Codec))) ''__MIME__/URI''
        = Some (form_UriCodec (form_New ''json''))"
  using Register_then_Get [of "''application/x-msgpack''" msgpack_Codec New]
    Register_then_Get [of "''*''" msgpack_Codec New]
    Register_then_Get [of "''__MIME__/QUERY''" "form_New ''json''" New]
    Register_then_Get [of "''__MIME__/QUERY''" msgpack_Codec New]
    Register_then_Get [of "''__MIME__/URI''" msgpack_Codec New]
  by (simp add: mime_defs msgpack_Codec_def form_New_def Get_def New_def)

text \<open>
  Claim C3: for every registry and every ordered list of raw Content-Type header values,
  inbound resolution goes through the values in order, takes the bare media type of each
  (the parsing by \<open>mime.ParseMediaType\<close> strips the parameters), passes over the values
  that do not parse, and returns the token and the codec of the first bare media type
  that is a key of the general mapping; when no value matches, it returns the wildcard
  token with the wildcard codec. It holds for any parsing function, on every registry
  whose mapping holds no nil entry.
\<close>

theorem marshalerFromHeaderContentType_first_match:
  assumes "noNilEntries r"
  shows "marshalerFromHeaderContentType parse r vals = contentTypeFirstMatch parse r vals"
proof (cases "registeredMediaTypes parse (mimeMap r) vals")
  case Nil
  from contentTypeValues_no_match [OF Nil, of "[]" None]
  have "snd (contentTypeValues parse (mimeMap r) vals ([], None)) = None" .
  with Nil show ?thesis
    by (cases "contentTypeValues parse (mimeMap r) vals ([], None)")
      (simp add: marshalerFromHeaderContentType_def contentTypeFirstMatch_def)
next
  case (Cons found rest)
  obtain mediaType m where f: "found = (mediaType, m)" by (cases found)
  with Cons have "mimeMap r mediaType = Some m"
    using registeredMediaTypes_entries [of mediaType m parse "mimeMap r" vals] by simp
  with assms have "m \<noteq> None" unfolding noNilEntries_def by metis
  with Cons f contentTypeValues_first_match [OF Cons, of "[]" None] show ?thesis
    by (auto simp: marshalerFromHeaderContentType_def contentTypeFirstMatch_def)
qed

theorem marshalerFromHeaderContentType_first_match_witness:
  "noNilEntries New
   \<and> marshalerFromHeaderContentType (ParseMediaType (testCollaborators Map.empty)) New
        [''application/unknown'', ''application/json; charset=UTF-8'',
         ''application/x-www-form-urlencoded'']
       = (''application/json'', Some (json_Codec True False))
   \<and> marshalerFromHeaderContentType (ParseMediaType (testCollaborators Map.empty)) New
        [''application/unknown'', ''text/plain'']
       = (''*'', Some (json_Codec True True))"
proof -
  have h: "noNilEntries New" by (simp add: noNilEntries_def New_def)
  show ?thesis
    using h
      marshalerFromHeaderContentType_first_match [OF h,
        of "ParseMediaType (testCollaborators Map.empty)"
           "[''application/unknown'', ''application/json; charset=UTF-8'',
             ''application/x-www-form-urlencoded'']"]
      marshalerFromHeaderContentType_first_match [OF h,
        of "ParseMediaType (testCollaborators Map.empty)"
           "[''application/unknown'', ''text/plain'']"]
    by (simp add: contentTypeFirstMatch_def registeredMediaTypes_def testCollaborators_def
        New_def mime_defs)
qed

text \<open>
  Claim C4: for every registry state, \<open>Delete\<close> of one of the three reserved tokens
  (wildcard, query, URI) returns an error and leaves the whole registry as it was;
  \<open>Delete\<close> of any other token returns no error and removes the token's entry from the
  general mapping, all other entries and the three slots staying as they were; and when
  the token has no entry, the registry is left as it was.
\<close>

theorem Delete_reserved_or_remove:
  "(mime = Mime_Wildcard \<or> mime = Mime_Query \<or> mime = Mime_Uri \<longrightarrow>
      fst (Delete r mime) \<noteq> None \<and> snd (Delete r mime) = r)
   \<and> (mime \<noteq> Mime_Wildcard \<and> mime \<noteq> Mime_Query \<and> mime \<noteq> Mime_Uri \<longrightarrow>
      fst (Delete r mime) = None
      \<and> mimeMap (snd (Delete r mime)) mime = None
      \<and> (\<forall>other. other \<noteq> mime \<longrightarrow> mimeMap (snd (Delete r mime)) other = mimeMap r other)
      \<and> mimeWildcard (snd (Delete r mime)) = mimeWildcard r
      \<and> mimeQuery (snd (Delete r mime)) = mimeQuery r
      \<and> mimeUri (snd (Delete r mime)) = mimeUri r
      \<and> (mimeMap r mime = None \<longrightarrow> snd (Delete r mime) = r))"
  by (auto simp: Delete_def fun_upd_idem)

theorem Delete_reserved_or_remove_witness:
  "fst (Delete New ''*'') \<noteq> None \<and> snd (Delete New ''*'') = New
   \<and> fst (Delete New ''__MIME__/QUERY'') \<noteq> None \<and> snd (Delete New ''__MIME__/QUERY'') = New
   \<and> fst (Delete New ''__MIME__/URI'') \<noteq> None \<and> snd (Delete New ''__MIME__/URI'') = New
   \<and> mimeMap New ''application/json'' \<noteq> None
   \<and> fst (Delete New ''application/json'') = None
   \<and> mimeMap (snd (Delete New ''application/json'')) ''application/json'' = None
   \<and> mimeMap (snd (Delete New ''application/json'')) ''multipart/form-data''
       = mimeMap New ''multipart/form-data''
   \<and> mimeMap New ''text/plain'' = None
   \<and> fst (Delete New ''text/plain'') = None \<and> snd (Delete New ''text/plain'') = New"
  using Delete_reserved_or_remove [of "''*''" New]
    Delete_reserved_or_remove [of "''__MIME__/QUERY''" New]
    Delete_reserved_or_remove [of "''__MIME__/URI''" New]
    Delete_reserved_or_remove [of "''application/json''" New]
    Delete_reserved_or_remove [of "''text/plain''" New]
  by (simp add: mime_defs New_def)

text \<open>
  Claim C5: in the registry that \<open>New\<close> builds, and after every sequence of \<open>Register\<close>
  and \<open>Delete\<close> calls on it, the three reserved slots (wildcard, query, URI) are not nil,
  and so \<open>Get\<close> returns a codec that is not nil for every token: the slot for a reserved
  token, the entry of the general mapping when the token has one, the wildcard codec
  otherwise.
\<close>

theorem reserved_slots_and_Get_never_nil:
  "mimeWildcard (afterCalls calls) \<noteq> None
   \<and> mimeQuery (afterCalls calls) \<noteq> None
   \<and> mimeUri (afterCalls calls) \<noteq> None
   \<and> Get (afterCalls calls) mime \<noteq> None
   \<and> Get (afterCalls calls) mime =
       (if mime = Mime_Query then mimeQuery (afterCalls calls)
        else if mime = Mime_Uri then mimeUri (afterCalls calls)
        else if mime = Mime_Wildcard then mimeWildcard (afterCalls calls)
        else case mimeMap (afterCalls calls) mime of
               Some entry \<Rightarrow> entry
             | None \<Rightarrow> mimeWildcard (afterCalls calls))"
proof -
  have inv: "hasNoNil (afterCalls calls)" by (rule hasNoNil_afterCalls)
  then have "mimeWildcard (afterCalls calls) \<noteq> None" "mimeQuery (afterCalls calls) \<noteq> None"
    "mimeUri (afterCalls calls) \<noteq> None"
    by (simp_all add: hasNoNil_def)
  moreover from inv have "Get (afterCalls calls) mime \<noteq> None" by (rule Get_not_nil)
  moreover note Get_cases [OF inv, of mime]
  ultimately show ?thesis by blast
qed

theorem reserved_slots_and_Get_never_nil_witness:
  "mimeWildcard (afterCalls [RegisterCall ''__MIME__/QUERY'' None, DeleteCall ''*'',
                             RegisterCall ''__MIME__/URI'' (Some msgpack_Codec),
                             DeleteCall ''application/json'']) \<noteq> None
   \<and> mimeQuery (afterCalls [RegisterCall ''__MIME__/QUERY'' None, DeleteCall ''*'',
                            RegisterCall ''__MIME__/URI'' (Some msgpack_Codec),
                            DeleteCall ''application/json'']) \<noteq> None
   \<and> mimeUri (afterCalls [RegisterCall ''__MIME__/QUERY'' None, DeleteCall ''*'',
                          RegisterCall ''__MIME__/URI'' (Some msgpack_Codec),
                          DeleteCall ''application/json'']) \<noteq> None
   \<and> Get (afterCalls [RegisterCall ''__MIME__/QUERY'' None, DeleteCall ''*'',
                      RegisterCall ''__MIME__/URI'' (Some msgpack_Codec),
                      DeleteCall ''application/json'']) ''application/json''
       = Some (json_Codec True True)"
  using reserved_slots_and_Get_never_nil
    [of "[RegisterCall ''__MIME__/QUERY'' None, DeleteCall ''*'',
          RegisterCall ''__MIME__/URI'' (Some msgpack_Codec),
          DeleteCall ''application/json'']" "''application/json''"]
  by (simp add: afterCalls_def Register_def Delete_def New_def mime_defs msgpack_Codec_def)

text \<open>
  Claim C6: for every request whose method is the retrieval method, \<open>GET\<close> (the
  specification's overview: GET goes to query binding, the other methods to body
  binding), \<open>Bind\<close> is \<open>BindQuery\<close>: the decoding of the URL's query parameters by the
  codec of the registry's query slot, whatever the header of the request holds.
\<close>

theorem Bind_GET_is_BindQuery:
  assumes "Method req = ''GET''"
  shows "Bind env r req v = BindQuery env r req v
         \<and> BindQuery env r req v =
             (case mimeQuery r of
                None \<Rightarrow> Panic
              | Some q \<Rightarrow> Return (FormMarshaler_Decode env q (URL_Query req) v))
         \<and> Bind env r (req\<lparr>Header := header\<rparr>) v = Bind env r req v"
  using assms by (simp add: Bind_def BindQuery_def split: option.splits)

theorem Bind_GET_is_BindQuery_witness:
  "Method (testRequest ''GET'' ''Content-Type'' ''application/json'') = ''GET''
   \<and> Bind (testCollaborators Map.empty) New
        (testRequest ''GET'' ''Content-Type'' ''application/json'') ([], [])
       = Return (None, (''foo'', ''bar''))
   \<and> Bind (testCollaborators Map.empty) New
        ((testRequest ''GET'' ''Content-Type'' ''application/json'')
           \<lparr>Header := [''Content-Type'' \<mapsto> [''multipart/form-data'']]\<rparr>) ([], [])
       = Return (None, (''foo'', ''bar''))"
proof -
  have h: "Method (testRequest ''GET'' ''Content-Type'' ''application/json'') = ''GET''"
    by (simp add: testRequest_def)
  show ?thesis
    using h
      Bind_GET_is_BindQuery [OF h, of "testCollaborators Map.empty" New "([], [])"
        "[''Content-Type'' \<mapsto> [''multipart/form-data'']]"]
    by (simp add: BindQuery_def New_def testCollaborators_def testRequest_def firstValue_def)
qed

text \<open>
  Claim C7: for every request whose method is not \<open>GET\<close> and whose Content-Type
  resolution gives the multipart-form token, \<open>Bind\<close> returns the error of an unsupported
  codec when the resolved codec does not implement \<open>FormCodec\<close>; otherwise it has the
  body parsed into the multipart fields with \<open>32 MiB\<close> as the bound on memory, returns
  the error of that parsing if there is one, and else passes the field map to the
  codec's \<open>FormCodec\<close> decoding.
\<close>

theorem Bind_multipart_form:
  assumes "Method req \<noteq> ''GET''"
    and "InboundForRequest env r req = (Mime_MultipartPostForm, marshaller)"
  shows "Bind env r req v =
           (case marshaller of
              None \<Rightarrow>
                Return (Some (Error ''encoding: not supported marshaller(multipart/form-data)''), v)
            | Some c \<Rightarrow>
                if \<not> implements c FormCodec then
                  Return (Some (Error ''encoding: not supported marshaller(multipart/form-data)''), v)
                else (case ParseMultipartForm env req (32 * 1024 * 1024) of
                        Inl err \<Rightarrow> Return (Some err, v)
                      | Inr formValue \<Rightarrow> Return (FormCodec_Decode env c formValue v)))"
  using assms
  by (simp add: Bind_def defaultMemory_def Mime_MultipartPostForm_def split: option.splits)

theorem Bind_multipart_form_witness:
  "Method (testRequest ''POST'' ''Content-Type'' ''multipart/form-data; boundary=x'') \<noteq> ''GET''
   \<and> InboundForRequest (testCollaborators [''id'' \<mapsto> [''foo''], ''name'' \<mapsto> [''bar'']]) New
        (testRequest ''POST'' ''Content-Type'' ''multipart/form-data; boundary=x'')
       = (Mime_MultipartPostForm, Some (form_MultipartCodec (form_New ''json'')))
   \<and> Bind (testCollaborators [''id'' \<mapsto> [''foo''], ''name'' \<mapsto> [''bar'']]) New
        (testRequest ''POST'' ''Content-Type'' ''multipart/form-data; boundary=x'') ([], [])
       = Return (None, (''foo'', ''bar''))
   \<and> InboundForRequest (testCollaborators [''id'' \<mapsto> [''foo''], ''name'' \<mapsto> [''bar'']])
        (snd (Register New ''multipart/form-data'' (Some msgpack_Codec)))
        (testRequest ''POST'' ''Content-Type'' ''multipart/form-data; boundary=x'')
       = (Mime_MultipartPostForm, Some msgpack_Codec)
   \<and> Bind (testCollaborators [''id'' \<mapsto> [''foo''], ''name'' \<mapsto> [''bar'']])
        (snd (Register New ''multipart/form-data'' (Some msgpack_Codec)))
        (testRequest ''POST'' ''Content-Type'' ''multipart/form-data; boundary=x'') ([], [])
       = Return (Some (Error ''encoding: not supported marshaller(multipart/form-data)''),
                 ([], []))"
proof -
  let ?env = "testCollaborators [''id'' \<mapsto> [''foo''], ''name'' \<mapsto> [''bar'']]"
  let ?req = "testRequest ''POST'' ''Content-Type'' ''multipart/form-data; boundary=x''"
  let ?r = "snd (Register New ''multipart/form-data'' (Some msgpack_Codec))"
  have m: "Method ?req \<noteq> ''GET''" by (simp add: testRequest_def)
  have i1: "InboundForRequest ?env New ?req
              = (Mime_MultipartPostForm, Some (form_MultipartCodec (form_New ''json'')))"
    by (simp add: InboundForRequest_def marshalerFromHeaderContentType_def headerValues_def
        contentTypeHeader_def testRequest_def testCollaborators_def New_def mime_defs)
  have i2: "InboundForRequest ?env ?r ?req = (Mime_MultipartPostForm, Some msgpack_Codec)"
    by (simp add: InboundForRequest_def marshalerFromHeaderContentType_def headerValues_def
        contentTypeHeader_def testRequest_def testCollaborators_def New_def mime_defs
        Register_def)
  show ?thesis
    using m i1 i2 Bind_multipart_form [OF m i1, of "([], [])"]
      Bind_multipart_form [OF m i2, of "([], [])"]
    by (simp add: testCollaborators_def firstValue_def form_MultipartCodec_def
        msgpack_Codec_def)
qed

text \<open>
  Claim C8: \<open>Render\<close> with a nil value returns no error and makes no call on the writer
  (no header set, no byte written), whatever the registry holds. With a value that is not
  nil, an error of the \<open>Marshal\<close> of the resolved outbound codec is returned with no call
  made on the writer; when \<open>Marshal\<close> succeeds, the \<open>Content-Type\<close> header is set to the
  content type the codec declares for the value, then the marshalled bytes are written,
  and the error of that write is returned.
\<close>

theorem Render_nil_error_success:
  "Render env write r req None = Return (None, [])
   \<and> (OutboundForRequest r req = Some marshaller \<and> Marshal env marshaller x = Inl err \<longrightarrow>
        Render env write r req (Some x) = Return (Some err, []))
   \<and> (OutboundForRequest r req = Some marshaller \<and> Marshal env marshaller x = Inr data \<longrightarrow>
        Render env write r req (Some x) =
          Return (write data,
                  [Header_Set ''Content-Type'' (ContentType env marshaller x), Write data]))"
  by (simp add: Render_def)

theorem Render_nil_error_success_witness:
  \<open>Render (testCollaborators Map.empty) (\<lambda>data. None) New
      (testRequest ''POST'' ''Accept'' ''application/json; charset=utf-8'') None
     = Return (None, [])
   \<and> OutboundForRequest New
       (testRequest ''POST'' ''Accept'' ''application/json; charset=utf-8'')
     = Some (json_Codec True True)
   \<and> Render (testCollaborators Map.empty) (\<lambda>data. None) New
       (testRequest ''POST'' ''Accept'' ''application/json; charset=utf-8'')
       (Some (''foo'', ''bar''))
     = Return (None, [Header_Set ''Content-Type'' ''application/json; charset=utf-8'',
                      Write ''{"id":"foo","name":"bar"}''])
   \<and> OutboundForRequest New
       (testRequest ''POST'' ''Accept'' ''application/x-www-form-urlencoded'')
     = Some (form_New ''json'')
   \<and> Render (testCollaborators Map.empty) (\<lambda>data. None) New
       (testRequest ''POST'' ''Accept'' ''application/x-www-form-urlencoded'')
       (Some (''foo'', ''bar''))
     = Return (Some (Error ''not implemented''), [])\<close>
proof -
  let ?env = "testCollaborators Map.empty"
  let ?json = "testRequest ''POST'' ''Accept'' ''application/json; charset=utf-8''"
  let ?form = "testRequest ''POST'' ''Accept'' ''application/x-www-form-urlencoded''"
  have o1: "OutboundForRequest New ?json = Some (json_Codec True True)"
    by (simp add: OutboundForRequest_def marshalerFromHeaderAccept_def headerValues_def
        acceptHeader_def testRequest_def parseAcceptHeader_def New_def mime_defs trim_simps)
  have o2: "OutboundForRequest New ?form = Some (form_New ''json'')"
    by (simp add: OutboundForRequest_def marshalerFromHeaderAccept_def headerValues_def
        acceptHeader_def testRequest_def parseAcceptHeader_def New_def mime_defs trim_simps)
  have m1: \<open>Marshal ?env (json_Codec True True) (''foo'', ''bar'')
              = Inr ''{"id":"foo","name":"bar"}''\<close>
    by (simp add: testCollaborators_def isJson_def json_Codec_def)
  have m2: "Marshal ?env (form_New ''json'') (''foo'', ''bar'') = Inl (Error ''not implemented'')"
    by (simp add: testCollaborators_def isJson_def form_New_def)
  have c1: "ContentType ?env (json_Codec True True) (''foo'', ''bar'')
              = ''application/json; charset=utf-8''"
    by (simp add: testCollaborators_def isJson_def json_Codec_def)
  show ?thesis
    using o1 o2
      Render_nil_error_success [of ?env "\<lambda>data. None" New ?json "json_Codec True True"
        "(''foo'', ''bar'')" "Error ''not implemented''" \<open>''{"id":"foo","name":"bar"}''\<close>]
      Render_nil_error_success [of ?env "\<lambda>data. None" New ?form "form_New ''json''"
        "(''foo'', ''bar'')" "Error ''not implemented''" "[]"]
    by (simp add: m1 m2 c1)
qed

text \<open>
  Claim C9: Accept resolution strips no parameters. The candidates of a header value are
  its pieces between the commas, each with the white space at its ends trimmed and
  nothing else taken away: a piece that is a candidate between ASCII white space, the
  candidate starting and ending with an ASCII byte that is not white space, gives that
  candidate as it is, media-type parameters included (such as
  \<open>application/json; charset=utf-8\<close>). The candidates are looked up as they are: when
  no candidate of any header value is a key of the general mapping (only bare media types
  are registered, the candidates carry parameters), the resolution gives the wildcard
  codec; and when some candidate is a key, on a registry without nil entries, the
  resolution gives the entry of a candidate that is a key.
\<close>

theorem Accept_candidates_looked_up_verbatim:
  "(pieces \<noteq> [] \<and> (\<forall>piece \<in> set pieces. CHR '','' \<notin> set piece) \<longrightarrow>
      parseAcceptHeader (strings_Join pieces CHR '','') = map strings_TrimSpace pieces)
   \<and> ((\<forall>c \<in> set before. asciiSpace c) \<and> (\<forall>c \<in> set after. asciiSpace c) \<and> cand \<noteq> []
        \<and> asciiNonSpace (hd cand) \<and> asciiNonSpace (last cand) \<longrightarrow>
      strings_TrimSpace (before @ cand @ after) = cand)
   \<and> ((\<forall>key \<in> set (concat (map parseAcceptHeader vals)). mimeMap r key = None) \<longrightarrow>
      marshalerFromHeaderAccept r vals = mimeWildcard r)
   \<and> ((\<forall>ps \<in> set piecess.
          ps \<noteq> [] \<and> (\<forall>piece \<in> set ps.
                      CHR '','' \<notin> set piece \<and> mimeMap r (strings_TrimSpace piece) = None)) \<longrightarrow>
      marshalerFromHeaderAccept r (map (\<lambda>ps. strings_Join ps CHR '','') piecess)
        = mimeWildcard r)
   \<and> (noNilEntries r
        \<and> (\<exists>key \<in> set (concat (map parseAcceptHeader vals)). mimeMap r key \<noteq> None) \<longrightarrow>
      (\<exists>key \<in> set (concat (map parseAcceptHeader vals)).
         mimeMap r key = Some (marshalerFromHeaderAccept r vals)))"
proof (intro conjI impI)
  assume "pieces \<noteq> [] \<and> (\<forall>piece \<in> set pieces. CHR '','' \<notin> set piece)"
  then show "parseAcceptHeader (strings_Join pieces CHR '','') = map strings_TrimSpace pieces"
    by (simp add: parseAcceptHeader_def strings_Split_Join)
next
  assume "(\<forall>c \<in> set before. asciiSpace c) \<and> (\<forall>c \<in> set after. asciiSpace c) \<and> cand \<noteq> []
        \<and> asciiNonSpace (hd cand) \<and> asciiNonSpace (last cand)"
  then show "strings_TrimSpace (before @ cand @ after) = cand"
    by (simp add: strings_TrimSpace_pad)
next
  assume "\<forall>key \<in> set (concat (map parseAcceptHeader vals)). mimeMap r key = None"
  then have "acceptValues (mimeMap r) vals None = None" by (rule acceptValues_none)
  then show "marshalerFromHeaderAccept r vals = mimeWildcard r"
    by (simp add: marshalerFromHeaderAccept_def)
next
  assume a: "\<forall>ps \<in> set piecess.
          ps \<noteq> [] \<and> (\<forall>piece \<in> set ps.
                      CHR '','' \<notin> set piece \<and> mimeMap r (strings_TrimSpace piece) = None)"
  have "\<forall>key \<in> set (concat (map parseAcceptHeader
                               (map (\<lambda>ps. strings_Join ps CHR '','') piecess))).
          mimeMap r key = None"
  proof
    fix key
    assume "key \<in> set (concat (map parseAcceptHeader
                                (map (\<lambda>ps. strings_Join ps CHR '','') piecess)))"
    then obtain ps where ps: "ps \<in> set piecess"
      and k: "key \<in> set (parseAcceptHeader (strings_Join ps CHR '',''))"
      by auto
    from a ps have "ps \<noteq> []" and "\<forall>piece \<in> set ps. CHR '','' \<notin> set piece" by auto
    then have "parseAcceptHeader (strings_Join ps CHR '','') = map strings_TrimSpace ps"
      by (simp add: parseAcceptHeader_def strings_Split_Join)
    with k obtain piece where "piece \<in> set ps" and "key = strings_TrimSpace piece" by auto
    with a ps show "mimeMap r key = None" by auto
  qed
  then have "acceptValues (mimeMap r) (map (\<lambda>ps. strings_Join ps CHR '','') piecess) None = None"
    by (rule acceptValues_none)
  then show "marshalerFromHeaderAccept r (map (\<lambda>ps. strings_Join ps CHR '','') piecess)
               = mimeWildcard r"
    by (simp add: marshalerFromHeaderAccept_def)
next
  assume a: "noNilEntries r
        \<and> (\<exists>key \<in> set (concat (map parseAcceptHeader vals)). mimeMap r key \<noteq> None)"
  then have "\<exists>key \<in> set (concat (map parseAcceptHeader vals)).
               mimeMap r key = Some (acceptValues (mimeMap r) vals None)"
    by (intro acceptValues_hit) simp
  then obtain key where k: "key \<in> set (concat (map parseAcceptHeader vals))"
    and e: "mimeMap r key = Some (acceptValues (mimeMap r) vals None)"
    by blast
  from a e have "acceptValues (mimeMap r) vals None \<noteq> None"
    unfolding noNilEntries_def by metis
  then have "marshalerFromHeaderAccept r vals = acceptValues (mimeMap r) vals None"
    by (auto simp: marshalerFromHeaderAccept_def Let_def)
  with k e show "\<exists>key \<in> set (concat (map parseAcceptHeader vals)).
         mimeMap r key = Some (marshalerFromHeaderAccept r vals)"
    by auto
qed

theorem Accept_candidates_looked_up_verbatim_witness:
  "strings_Join [''text/html'', '' application/json; charset=utf-8''] CHR '',''
     = ''text/html, application/json; charset=utf-8''
   \<and> parseAcceptHeader ''text/html, application/json; charset=utf-8''
       = [''text/html'', ''application/json; charset=utf-8'']
   \<and> mimeMap New ''application/json'' = Some (Some (json_Codec True False))
   \<and> marshalerFromHeaderAccept New [''text/html, application/json; charset=utf-8'']
       = Some (json_Codec True True)
   \<and> marshalerFromHeaderAccept
        (snd (Register New ''application/json; charset=utf-8'' (Some msgpack_Codec)))
        [''text/html, application/json; charset=utf-8'']
       = Some msgpack_Codec"
proof -
  let ?pieces = "[''text/html'', '' application/json; charset=utf-8'']"
  let ?header = "''text/html, application/json; charset=utf-8''"
  let ?r = "snd (Register New ''application/json; charset=utf-8'' (Some msgpack_Codec))"
  note new = Accept_candidates_looked_up_verbatim
    [of ?pieces "'' ''" "[]" "''application/json; charset=utf-8''" "[?header]" New "[?pieces]"]
  note reg = Accept_candidates_looked_up_verbatim
    [of ?pieces "[]" "[]" "''text/html''" "[?header]" ?r "[?pieces]"]
  have j: "strings_Join ?pieces CHR '','' = ?header" by simp
  have t1: "strings_TrimSpace '' application/json; charset=utf-8''
              = ''application/json; charset=utf-8''"
    using new by (simp add: asciiSpace_def asciiNonSpace_def)
  have t2: "strings_TrimSpace ''text/html'' = ''text/html''"
    using reg by (simp add: asciiSpace_def asciiNonSpace_def)
  have p: "parseAcceptHeader ?header = [''text/html'', ''application/json; charset=utf-8'']"
    using new j t1 t2 by simp
  have w: "marshalerFromHeaderAccept New [?header] = Some (json_Codec True True)"
    using new p by (simp add: New_def mime_defs)
  have n: "noNilEntries ?r"
    by (simp add: noNilEntries_def Register_def New_def mime_defs)
  have "\<exists>key \<in> set (concat (map parseAcceptHeader [?header])).
          mimeMap ?r key = Some (marshalerFromHeaderAccept ?r [?header])"
    using reg n p by (simp add: Register_def New_def mime_defs)
  then have h: "marshalerFromHeaderAccept ?r [?header] = Some msgpack_Codec"
    using p by (simp add: Register_def New_def mime_defs split: if_splits)
  show ?thesis using j p w h by (simp add: New_def mime_defs)
qed

text \<open>
  Claim C10: every \<open>Register\<close> call that fails leaves the four components of the
  registry (the general mapping and the wildcard, query and URI slots) as they were. The
  calls that fail are those with the empty token, with the nil codec, and with the query
  or URI token and a codec without the capability of that slot.
\<close>

theorem Register_failure_leaves_registry:
  "(fst (Register r mime marshaler) \<noteq> None \<longleftrightarrow>
      mime = [] \<or> marshaler = None
      \<or> (\<exists>m. marshaler = Some m
            \<and> (mime = Mime_Query \<and> \<not> implements m FormMarshaler
               \<or> mime = Mime_Uri \<and> \<not> implements m UriMarshaler)))
   \<and> (fst (Register r mime marshaler) \<noteq> None \<longrightarrow>
        snd (Register r mime marshaler) = r
        \<and> mimeMap (snd (Register r mime marshaler)) = mimeMap r
        \<and> mimeWildcard (snd (Register r mime marshaler)) = mimeWildcard r
        \<and> mimeQuery (snd (Register r mime marshaler)) = mimeQuery r
        \<and> mimeUri (snd (Register r mime marshaler)) = mimeUri r)"
  by (auto simp: Register_def Mime_Query_def Mime_Uri_def split: option.splits)

theorem Register_failure_leaves_registry_witness:
  "fst (Register New [] (Some msgpack_Codec)) \<noteq> None
   \<and> snd (Register New [] (Some msgpack_Codec)) = New
   \<and> fst (Register New ''__MIME__/URI'' None) \<noteq> None
   \<and> snd (Register New ''__MIME__/URI'' None) = New
   \<and> fst (Register New ''__MIME__/QUERY'' (Some msgpack_Codec)) \<noteq> None
   \<and> snd (Register New ''__MIME__/QUERY'' (Some msgpack_Codec)) = New
   \<and> fst (Register New ''__MIME__/URI'' (Some msgpack_Codec)) \<noteq> None
   \<and> snd (Register New ''__MIME__/URI'' (Some msgpack_Codec)) = New
   \<and> fst (Register New ''application/x-msgpack'' (Some msgpack_Codec)) = None"
  using Register_failure_leaves_registry [of New "[]" "Some msgpack_Codec"]
    Register_failure_leaves_registry [of New "''__MIME__/URI''" None]
    Register_failure_leaves_registry [of New "''__MIME__/QUERY''" "Some msgpack_Codec"]
    Register_failure_leaves_registry [of New "''__MIME__/URI''" "Some msgpack_Codec"]
    Register_failure_leaves_registry [of New "''application/x-msgpack''" "Some msgpack_Codec"]
  by (simp add: mime_defs msgpack_Codec_def form_New_def)

end
